theory Spec2Isabelle
  imports Main
begin

section \<open>Result aggregation (okonf/facts/abstract.py)\<close>

text \<open>
  The payload of a \<open>FactCheck\<close> or \<open>FactResult\<close> is a Python boolean or a list whose
  elements are again booleans or lists (the constructors assert
  \<open>isinstance(result, bool) or isinstance(result, list)\<close>).
\<close>

datatype nested = Leaf bool | Group "nested list"

text \<open>
  \<open>all_true(iterable)\<close>: the loop over the elements, with the early \<open>return False\<close>
  of both branches; a boolean is not an \<open>Iterable\<close>, a list is.
\<close>

fun all_true :: "nested list \<Rightarrow> bool" where
  "all_true [] = True"
| "all_true (Group ys # xs) = (if \<not> all_true ys then False else all_true xs)"
| "all_true (Leaf b # xs) = (if \<not> b then False else all_true xs)"

text \<open>
  \<open>any_true(iterable)\<close>: the same loop; the branch for a nested iterable returns
  \<open>True\<close> when \<open>not any_true(element)\<close>.
\<close>

fun any_true :: "nested list \<Rightarrow> bool" where
  "any_true [] = False"
| "any_true (Group ys # xs) = (if \<not> any_true ys then True else any_true xs)"
| "any_true (Leaf b # xs) = (if b then True else any_true xs)"

record 'f FactCheck =
  fact :: 'f
  result :: nested

record 'f FactResult =
  fact :: 'f
  result :: nested

text \<open>\<open>FactCheck.__bool__\<close> and \<open>FactResult.__bool__\<close>.\<close>

definition FactCheck_bool :: "'f FactCheck \<Rightarrow> bool" where
  "FactCheck_bool c =
     (case FactCheck.result c of Leaf b \<Rightarrow> b | Group xs \<Rightarrow> all_true xs)"

definition FactResult_bool :: "'f FactResult \<Rightarrow> bool" where
  "FactResult_bool r =
     (case FactResult.result r of Leaf b \<Rightarrow> b | Group xs \<Rightarrow> any_true xs)"

text \<open>
  Python's \<open>==\<close> on payload values: two booleans compare by value, two lists compare
  element by element after their lengths, a boolean and a list are never equal.
\<close>

fun py_eq :: "nested \<Rightarrow> nested \<Rightarrow> bool"
  and py_list_eq :: "nested list \<Rightarrow> nested list \<Rightarrow> bool" where
  "py_eq (Leaf a) (Leaf b) = (a = b)"
| "py_eq (Group xs) (Group ys) = py_list_eq xs ys"
| "py_eq (Leaf a) (Group ys) = False"
| "py_eq (Group xs) (Leaf b) = False"
| "py_list_eq [] [] = True"
| "py_list_eq (x # xs) (y # ys) = (if py_eq x y then py_list_eq xs ys else False)"
| "py_list_eq [] (y # ys) = False"
| "py_list_eq (x # xs) [] = False"

text \<open>\<open>FactCheck.__eq__\<close> and \<open>FactResult.__eq__\<close>: \<open>self.result == other\<close>.\<close>

definition FactCheck_eq :: "'f FactCheck \<Rightarrow> nested \<Rightarrow> bool" where
  "FactCheck_eq c other = py_eq (FactCheck.result c) other"

definition FactResult_eq :: "'f FactResult \<Rightarrow> nested \<Rightarrow> bool" where
  "FactResult_eq r other = py_eq (FactResult.result r) other"

text \<open>The leaves of a payload, depth first, left to right.\<close>

fun leaves :: "nested \<Rightarrow> bool list"
  and leaves_list :: "nested list \<Rightarrow> bool list" where
  "leaves (Leaf b) = [b]"
| "leaves (Group xs) = leaves_list xs"
| "leaves_list [] = []"
| "leaves_list (x # xs) = leaves x @ leaves_list xs"

section \<open>The execution capability\<close>

datatype error =
  NoSuchFileError | ProcessError | AssertionError | ValueError | TypeError
  | NotImplementedError

text \<open>
  The operations a unit can issue against a host: \<open>host.run(command, check, no_such_file)\<close>
  and \<open>host.put(remote_path, local_path)\<close>.
\<close>

datatype op = Run string bool bool | Put string string

text \<open>
  Modelled from the spec: the \<open>Host\<close> class (okonf/connectors) is not part of the
  source. A host answers an operation with captured output or raises; its answer may
  depend on everything done to it so far, which \<open>log\<close> records. Output is a string of
  characters with code points below 256.
\<close>

record host =
  respond :: "op list \<Rightarrow> op \<Rightarrow> error + string"
  log :: "op list"

text \<open>
  Modelled from the spec: \<open>run(command, failOnNonZero = true, reportMissingPath = false)\<close>
  of the missing \<open>Host\<close> class executes a command and returns its captured output.
\<close>

definition host_run :: "string \<Rightarrow> bool \<Rightarrow> bool \<Rightarrow> host \<Rightarrow> (error + string) \<times> host" where
  "host_run command check no_such_file h =
     (respond h (log h) (Run command check no_such_file),
      h\<lparr>log := log h @ [Run command check no_such_file]\<rparr>)"

text \<open>
  Modelled from the spec: \<open>put(remotePath, localPath)\<close> of the missing \<open>Host\<close> class
  transfers a local file and returns nothing.
\<close>

definition host_put :: "string \<Rightarrow> string \<Rightarrow> host \<Rightarrow> (error + unit) \<times> host" where
  "host_put remote_path local_path h =
     (case respond h (log h) (Put remote_path local_path) of
        Inl e \<Rightarrow> Inl e
      | Inr _ \<Rightarrow> Inr (),
      h\<lparr>log := log h @ [Put remote_path local_path]\<rparr>)"

text \<open>The operations issued between two states of the same host.\<close>

definition issued :: "host \<Rightarrow> host \<Rightarrow> op list" where
  "issued h h' = drop (length (log h)) (log h')"

section \<open>The check/apply engine (class Fact)\<close>

text \<open>
  A \<open>Fact\<close> is given by its two abstract methods. The engine's state is the host
  together with the trace of the unit methods the engine has invoked. The calls of
  \<open>logging.info\<close> in \<open>check\<close> and \<open>apply\<close> do not reach the host and are left out.
\<close>

record Fact =
  enquire :: "host \<Rightarrow> (error + nested) \<times> host"
  enforce :: "host \<Rightarrow> (error + nested) \<times> host"

datatype call = CallEnquire | CallEnforce

type_synonym engine = "host \<times> call list"

definition Fact_check :: "Fact \<Rightarrow> engine \<Rightarrow> (error + Fact FactCheck) \<times> engine" where
  "Fact_check f w =
     (case w of (h, cs) \<Rightarrow>
        (case enquire f h of
           (Inl e, h') \<Rightarrow> (Inl e, (h', cs @ [CallEnquire]))
         | (Inr r, h') \<Rightarrow>
             (Inr \<lparr>FactCheck.fact = f, result = r\<rparr>, (h', cs @ [CallEnquire]))))"

definition Fact_apply :: "Fact \<Rightarrow> engine \<Rightarrow> (error + Fact FactResult) \<times> engine" where
  "Fact_apply f w =
     (case Fact_check f w of
        (Inl e, w') \<Rightarrow> (Inl e, w')
      | (Inr c, (h', cs')) \<Rightarrow>
          if \<not> FactCheck_bool c then
            (case enforce f h' of
               (Inl e, h'') \<Rightarrow> (Inl e, (h'', cs' @ [CallEnforce]))
             | (Inr r, h'') \<Rightarrow>
                 (Inr \<lparr>FactResult.fact = f, result = r\<rparr>, (h'', cs' @ [CallEnforce])))
          else (Inr \<lparr>FactResult.fact = f, result = Leaf False\<rparr>, (h', cs')))"

text \<open>The unit methods invoked between two engine states.\<close>

definition invoked :: "engine \<Rightarrow> engine \<Rightarrow> call list" where
  "invoked w w' = drop (length (snd w)) (snd w')"

section \<open>Package facts (okonf/facts/apt.py)\<close>

record AptPresent =
  name :: string
  sudo :: bool

record AptAbsent = AptPresent +
  purge :: bool

definition AptPresent_enforce :: "'a AptPresent_scheme \<Rightarrow> host \<Rightarrow> (error + nested) \<times> host" where
  "AptPresent_enforce self h =
     (if sudo self then
        (case host_run (''sudo apt-get install -y '' @ name self) True False h of
           (Inl e, h') \<Rightarrow> (Inl e, h') | (Inr _, h') \<Rightarrow> (Inr (Leaf True), h'))
      else
        (case host_run (''apt-get install -y '' @ name self) True False h of
           (Inl e, h') \<Rightarrow> (Inl e, h') | (Inr _, h') \<Rightarrow> (Inr (Leaf True), h')))"

definition AptAbsent_enforce :: "AptAbsent \<Rightarrow> host \<Rightarrow> (error + nested) \<times> host" where
  "AptAbsent_enforce self h =
     (let purge_flag = (if purge self then ''--purge'' else '''') in
      if sudo self then
        (case host_run (''apt-get remove '' @ purge_flag @ '' -y '' @ name self) True False h of
           (Inl e, h') \<Rightarrow> (Inl e, h') | (Inr _, h') \<Rightarrow> (Inr (Leaf True), h'))
      else
        (case host_run (''sudo apt-get remove '' @ purge_flag @ '' -y '' @ name self) True False h of
           (Inl e, h') \<Rightarrow> (Inl e, h') | (Inr _, h') \<Rightarrow> (Inr (Leaf True), h')))"

record AptUpdated =
  names :: "string list"

definition AptUpdated_enquire :: "AptUpdated \<Rightarrow> host \<Rightarrow> (error + nested) \<times> host" where
  "AptUpdated_enquire self h = (Inr (Leaf False), h)"

definition AptUpdated_enforce :: "AptUpdated \<Rightarrow> host \<Rightarrow> (error + nested) \<times> host" where
  "AptUpdated_enforce self h =
     (case host_run ''sudo apt-get update'' True False h of
        (Inl e, h') \<Rightarrow> (Inl e, h') | (Inr _, h') \<Rightarrow> (Inr (Leaf True), h'))"

definition AptUpdated_Fact :: "AptUpdated \<Rightarrow> Fact" where
  "AptUpdated_Fact self =
     \<lparr>enquire = AptUpdated_enquire self, enforce = AptUpdated_enforce self\<rparr>"

section \<open>Python string and path operations used by okonf/modules/files.py\<close>

text \<open>\<open>str.isspace\<close> for one character with a code point below 256.\<close>

definition py_isspace :: "char \<Rightarrow> bool" where
  "py_isspace c =
     (let n = (of_char c :: nat)
      in (9 \<le> n \<and> n \<le> 13) \<or> (28 \<le> n \<and> n \<le> 32) \<or> n = 133 \<or> n = 160)"

text \<open>\<open>s.strip()\<close> and \<open>s.strip(chars)\<close>.\<close>

definition py_strip :: "string \<Rightarrow> string" where
  "py_strip s = rev (dropWhile py_isspace (rev (dropWhile py_isspace s)))"

definition py_strip_chars :: "string \<Rightarrow> string \<Rightarrow> string" where
  "py_strip_chars chars s =
     rev (dropWhile (\<lambda>c. c \<in> set chars) (rev (dropWhile (\<lambda>c. c \<in> set chars) s)))"

text \<open>\<open>s.split(sep)\<close> for a separator of one character: empty pieces are kept.\<close>

fun py_split_sep :: "char \<Rightarrow> string \<Rightarrow> string list" where
  "py_split_sep sep [] = [[]]"
| "py_split_sep sep (c # cs) =
     (if c = sep then [] # py_split_sep sep cs
      else (case py_split_sep sep cs of
              [] \<Rightarrow> [[c]]
            | w # ws \<Rightarrow> (c # w) # ws))"

text \<open>\<open>s.split()\<close>: the maximal runs of non-whitespace characters.\<close>

fun ws_tokens :: "string \<Rightarrow> string \<Rightarrow> string list" where
  "ws_tokens cur [] = (if cur = [] then [] else [cur])"
| "ws_tokens cur (c # cs) =
     (if py_isspace c then (if cur = [] then ws_tokens [] cs else cur # ws_tokens [] cs)
      else ws_tokens (cur @ [c]) cs)"

definition py_split :: "string \<Rightarrow> string list" where
  "py_split s = ws_tokens [] s"

text \<open>\<open>s.startswith(p)\<close>.\<close>

definition startswith :: "string \<Rightarrow> string \<Rightarrow> bool" where
  "startswith s p = (take (length p) s = p)"

text \<open>\<open>s.encode()\<close>: UTF-8, for code points below 256.\<close>

definition py_encode :: "string \<Rightarrow> string" where
  "py_encode s =
     concat (map (\<lambda>c. let n = (of_char c :: nat)
                       in if n < 128 then [c]
                          else [char_of (192 + n div 64), char_of (128 + n mod 64)]) s)"

text \<open>\<open>os.path.join(a, b)\<close> of posixpath, for two components.\<close>

definition join :: "string \<Rightarrow> string \<Rightarrow> string" where
  "join a b =
     (if startswith b ''/'' then b
      else if a = [] \<or> (a \<noteq> [] \<and> last a = CHR ''/'') then a @ b
      else a @ ''/'' @ b)"

text \<open>
  The Python values that occur as file hashes: \<open>None\<close> (no hash known), \<open>False\<close>
  (the remote file is missing), a \<open>bytes\<close> and a \<open>str\<close> object. Python's \<open>==\<close> on
  them is equality of these values; a \<open>bytes\<close> never equals a \<open>str\<close>.
\<close>

datatype pyval = PyNone | PyFalse | PyBytes string | PyStr string

fun truthy :: "pyval \<Rightarrow> bool" where
  "truthy PyNone = False"
| "truthy PyFalse = False"
| "truthy (PyBytes s) = (s \<noteq> [])"
| "truthy (PyStr s) = (s \<noteq> [])"

text \<open>
  A Python \<open>dict\<close> from path to hash, in insertion order: \<open>result[path] = hash\<close> and
  \<open>existing_files.get(path)\<close>.
\<close>

type_synonym dict = "(string \<times> string) list"

fun dict_set :: "string \<Rightarrow> string \<Rightarrow> dict \<Rightarrow> dict" where
  "dict_set k v [] = [(k, v)]"
| "dict_set k v (p # ps) = (if fst p = k then (k, v) # ps else p # dict_set k v ps)"

definition dict_get :: "dict \<Rightarrow> string \<Rightarrow> pyval" where
  "dict_get d k = (case map_of d k of None \<Rightarrow> PyNone | Some v \<Rightarrow> PyStr v)"

text \<open>
  The local file system, as the units read it: \<open>os.walk\<close>, \<open>os.path.isfile\<close>,
  \<open>os.path.isdir\<close>, and \<open>get_local_file_hash\<close> of okonf/utils, which is not part of
  the source and may fail to read its file.
\<close>

record localfs =
  walk :: "string \<Rightarrow> (string \<times> string list \<times> string list) list"
  isfile :: "string \<Rightarrow> bool"
  isdir :: "string \<Rightarrow> bool"
  get_local_file_hash :: "string \<Rightarrow> error + pyval"

section \<open>File and directory units (okonf/modules/files.py)\<close>

datatype module =
    FilePresent string
  | FileAbsent string
  | FileHash string pyval
  | FileCopy string string pyval
  | DirectoryPresent string
  | DirectoryAbsent string

definition FilePresent_check :: "string \<Rightarrow> host \<Rightarrow> (error + bool) \<times> host" where
  "FilePresent_check remote_path h =
     (case host_run (''ls -d '' @ remote_path) False False h of
        (Inl e, h') \<Rightarrow> (Inl e, h')
      | (Inr out, h') \<Rightarrow> (Inr (out \<noteq> []), h'))"

definition FileAbsent_check :: "string \<Rightarrow> host \<Rightarrow> (error + bool) \<times> host" where
  "FileAbsent_check remote_path h =
     (case FilePresent_check remote_path h of
        (Inl e, h') \<Rightarrow> (Inl e, h')
      | (Inr b, h') \<Rightarrow> (Inr (\<not> b), h'))"

text \<open>\<open>FileHash.get_hash\<close>: the first field of the \<open>sha256sum\<close> output, or \<open>False\<close>.\<close>

definition FileHash_get_hash :: "string \<Rightarrow> host \<Rightarrow> (error + pyval) \<times> host" where
  "FileHash_get_hash remote_path h =
     (case host_run (''sha256sum '' @ remote_path) True True h of
        (Inl NoSuchFileError, h') \<Rightarrow> (Inr PyFalse, h')
      | (Inl e, h') \<Rightarrow> (Inl e, h')
      | (Inr out, h') \<Rightarrow>
          (Inr (PyBytes (py_encode (takeWhile (\<lambda>c. c \<noteq> CHR '' '') out))), h'))"

definition FileHash_check :: "string \<Rightarrow> pyval \<Rightarrow> host \<Rightarrow> (error + bool) \<times> host" where
  "FileHash_check remote_path hash h =
     (case FileHash_get_hash remote_path h of
        (Inl e, h') \<Rightarrow> (Inl e, h')
      | (Inr remote_hash, h') \<Rightarrow> (Inr (remote_hash = hash), h'))"

text \<open>
  \<open>FileHash.apply\<close> is \<open>raise NotImplemented\<close>. \<open>NotImplemented\<close> is the constant of
  binary operators, not the exception class \<open>NotImplementedError\<close>, so Python raises
  \<open>TypeError\<close> (exceptions must derive from \<open>BaseException\<close>) before anything else
  happens.
\<close>

definition FileHash_apply :: "string \<Rightarrow> pyval \<Rightarrow> host \<Rightarrow> (error + bool) \<times> host" where
  "FileHash_apply remote_path hash h = (Inl TypeError, h)"

definition FileCopy_check ::
  "localfs \<Rightarrow> string \<Rightarrow> string \<Rightarrow> pyval \<Rightarrow> host \<Rightarrow> (error + bool) \<times> host" where
  "FileCopy_check fs remote_path local_path remote_hash h =
     (case get_local_file_hash fs local_path of
        Inl e \<Rightarrow> (Inl e, h)
      | Inr local_hash \<Rightarrow>
          if truthy remote_hash then (Inr (local_hash = remote_hash), h)
          else FileHash_check remote_path local_hash h)"

definition DirectoryPresent_check :: "string \<Rightarrow> host \<Rightarrow> (error + bool) \<times> host" where
  "DirectoryPresent_check remote_path h =
     (case host_run (''ls -d '' @ remote_path) False False h of
        (Inl e, h') \<Rightarrow> (Inl e, h')
      | (Inr out, h') \<Rightarrow> (Inr (out \<noteq> []), h'))"

definition DirectoryAbsent_check :: "string \<Rightarrow> host \<Rightarrow> (error + bool) \<times> host" where
  "DirectoryAbsent_check remote_path h =
     (case DirectoryPresent_check remote_path h of
        (Inl e, h') \<Rightarrow> (Inl e, h')
      | (Inr b, h') \<Rightarrow> (Inr (\<not> b), h'))"

text \<open>The \<open>check\<close> method of a unit, by its class.\<close>

fun module_check :: "localfs \<Rightarrow> module \<Rightarrow> host \<Rightarrow> (error + bool) \<times> host" where
  "module_check fs (FilePresent p) h = FilePresent_check p h"
| "module_check fs (FileAbsent p) h = FileAbsent_check p h"
| "module_check fs (FileHash p hash) h = FileHash_check p hash h"
| "module_check fs (FileCopy p l remote_hash) h = FileCopy_check fs p l remote_hash h"
| "module_check fs (DirectoryPresent p) h = DirectoryPresent_check p h"
| "module_check fs (DirectoryAbsent p) h = DirectoryAbsent_check p h"

text \<open>
  The first word of a command line, and the operations that only read: a \<open>run\<close> of
  \<open>ls\<close>, \<open>sha256sum\<close> or \<open>find\<close>. A \<open>put\<close> writes.
\<close>

definition command_name :: "string \<Rightarrow> string" where
  "command_name command = takeWhile (\<lambda>c. c \<noteq> CHR '' '') command"

fun read_only :: "op \<Rightarrow> bool" where
  "read_only (Run command check no_such_file) =
     (command_name command = ''ls'' \<or> command_name command = ''sha256sum''
      \<or> command_name command = ''find'')"
| "read_only (Put remote_path local_path) = False"

text \<open>The \<open>apply\<close> methods of the units.\<close>

definition FilePresent_apply :: "string \<Rightarrow> host \<Rightarrow> (error + bool) \<times> host" where
  "FilePresent_apply remote_path h =
     (case host_run (''touch '' @ remote_path) True False h of
        (Inl e, h') \<Rightarrow> (Inl e, h') | (Inr _, h') \<Rightarrow> (Inr True, h'))"

definition FileAbsent_apply :: "string \<Rightarrow> host \<Rightarrow> (error + bool) \<times> host" where
  "FileAbsent_apply remote_path h =
     (case host_run (''rm '' @ remote_path) True False h of
        (Inl e, h') \<Rightarrow> (Inl e, h') | (Inr _, h') \<Rightarrow> (Inr True, h'))"

definition FileCopy_apply :: "string \<Rightarrow> string \<Rightarrow> host \<Rightarrow> (error + bool) \<times> host" where
  "FileCopy_apply remote_path local_path h =
     (case host_put remote_path local_path h of
        (Inl e, h') \<Rightarrow> (Inl e, h') | (Inr _, h') \<Rightarrow> (Inr True, h'))"

definition DirectoryPresent_apply :: "string \<Rightarrow> host \<Rightarrow> (error + bool) \<times> host" where
  "DirectoryPresent_apply remote_path h =
     (case host_run (''mkdir -p '' @ remote_path) True False h of
        (Inl e, h') \<Rightarrow> (Inl e, h') | (Inr _, h') \<Rightarrow> (Inr True, h'))"

definition DirectoryAbsent_apply :: "string \<Rightarrow> host \<Rightarrow> (error + bool) \<times> host" where
  "DirectoryAbsent_apply remote_path h =
     (case host_run (''rmdir '' @ remote_path) True False h of
        (Inl e, h') \<Rightarrow> (Inl e, h') | (Inr _, h') \<Rightarrow> (Inr True, h'))"

text \<open>The \<open>apply\<close> method of a unit, by its class.\<close>

fun module_apply :: "module \<Rightarrow> host \<Rightarrow> (error + bool) \<times> host" where
  "module_apply (FilePresent p) h = FilePresent_apply p h"
| "module_apply (FileAbsent p) h = FileAbsent_apply p h"
| "module_apply (FileHash p hash) h = FileHash_apply p hash h"
| "module_apply (FileCopy p l remote_hash) h = FileCopy_apply p l h"
| "module_apply (DirectoryPresent p) h = DirectoryPresent_apply p h"
| "module_apply (DirectoryAbsent p) h = DirectoryAbsent_apply p h"

text \<open>
  The operations that write: a \<open>put\<close>, and a \<open>run\<close> of \<open>touch\<close>, \<open>rm\<close>, \<open>mkdir\<close>
  or \<open>rmdir\<close>.
\<close>

fun mutating :: "op \<Rightarrow> bool" where
  "mutating (Run command check no_such_file) =
     (command_name command = ''touch'' \<or> command_name command = ''rm''
      \<or> command_name command = ''mkdir'' \<or> command_name command = ''rmdir'')"
| "mutating (Put remote_path local_path) = True"

text \<open>Whether a \<open>run\<close> carries the \<open>sudo\<close> prefix.\<close>

fun sudo_prefixed :: "op \<Rightarrow> bool" where
  "sudo_prefixed (Run command check no_such_file) = startswith command ''sudo ''"
| "sudo_prefixed (Put remote_path local_path) = False"

section \<open>Directory synchronisation (class DirectoryCopy)\<close>

record DirectoryCopy =
  remote_path :: string
  local_path :: string

text \<open>
  The loop of \<open>info_files_hash\<close> over the lines of the output: an empty line is
  skipped, and \<open>hash, path = line.split()\<close> raises \<open>ValueError\<close> unless the line has
  exactly two fields.
\<close>

fun parse_lines :: "string list \<Rightarrow> dict \<Rightarrow> error + dict" where
  "parse_lines [] res = Inr res"
| "parse_lines (line # rest) res =
     (if line = [] then parse_lines rest res
      else (case py_split line of
              [hash, path] \<Rightarrow> parse_lines rest (dict_set path hash res)
            | _ \<Rightarrow> Inl ValueError))"

definition info_files_hash :: "DirectoryCopy \<Rightarrow> host \<Rightarrow> (error + dict) \<times> host" where
  "info_files_hash self h =
     (case host_run (''find '' @ remote_path self @ '' -type f -exec sha256sum {} +'')
             True True h of
        (Inl NoSuchFileError, h') \<Rightarrow> (Inr [], h')
      | (Inl e, h') \<Rightarrow> (Inl e, h')
      | (Inr output, h') \<Rightarrow>
          (parse_lines (py_split_sep (CHR 0x0A) (py_strip output)) [], h'))"

definition info_dirs_present :: "DirectoryCopy \<Rightarrow> host \<Rightarrow> (error + string list) \<times> host" where
  "info_dirs_present self h =
     (case host_run (''find '' @ remote_path self @ '' -type d'') True True h of
        (Inl NoSuchFileError, h') \<Rightarrow> (Inr [], h')
      | (Inl e, h') \<Rightarrow> (Inl e, h')
      | (Inr output, h') \<Rightarrow> (Inr (py_split_sep (CHR 0x0A) (py_strip output)), h'))"

text \<open>\<open>_get_remote_path\<close> and \<open>_get_local_path\<close>, with their assertions.\<close>

definition get_remote_path :: "DirectoryCopy \<Rightarrow> string \<Rightarrow> error + string" where
  "get_remote_path self path =
     (if startswith path (local_path self)
      then Inr (join (remote_path self)
                  (py_strip_chars ''/'' (drop (length (local_path self)) path)))
      else Inl AssertionError)"

definition get_local_path :: "DirectoryCopy \<Rightarrow> string \<Rightarrow> error + string" where
  "get_local_path self path =
     (if startswith path (remote_path self)
      then Inr (join (local_path self)
                  (py_strip_chars ''/'' (drop (length (remote_path self)) path)))
      else Inl AssertionError)"

text \<open>
  The loop of \<open>submodules\<close> over \<open>os.walk(self.local_path)\<close>; the two inner loops
  append one unit for each directory name and each file name.
\<close>

fun walk_loop ::
  "DirectoryCopy \<Rightarrow> dict \<Rightarrow> (string \<times> string list \<times> string list) list \<Rightarrow>
   module list \<Rightarrow> module list \<Rightarrow> error + (module list \<times> module list)" where
  "walk_loop self existing_files [] dirs_to_create files_to_copy =
     Inr (dirs_to_create, files_to_copy)"
| "walk_loop self existing_files ((root, dirs, files) # rest) dirs_to_create files_to_copy =
     (case get_remote_path self root of
        Inl e \<Rightarrow> Inl e
      | Inr remote_root \<Rightarrow>
          walk_loop self existing_files rest
            (foldl (\<lambda>acc dirname. acc @ [DirectoryPresent (join remote_root dirname)])
               dirs_to_create dirs)
            (foldl (\<lambda>acc filename.
                      acc @ [FileCopy (join remote_root filename) (join root filename)
                               (dict_get existing_files (join remote_root filename))])
               files_to_copy files))"

text \<open>The loop over the keys of \<open>existing_files\<close>.\<close>

fun files_remove_loop ::
  "DirectoryCopy \<Rightarrow> localfs \<Rightarrow> string list \<Rightarrow> module list \<Rightarrow> error + module list" where
  "files_remove_loop self fs [] files_to_remove = Inr files_to_remove"
| "files_remove_loop self fs (filepath # rest) files_to_remove =
     (case get_local_path self filepath of
        Inl e \<Rightarrow> Inl e
      | Inr p \<Rightarrow>
          if \<not> isfile fs p
          then files_remove_loop self fs rest (files_to_remove @ [FileAbsent filepath])
          else files_remove_loop self fs rest files_to_remove)"

text \<open>The loop over \<open>existing_dirs\<close>.\<close>

fun dirs_remove_loop ::
  "DirectoryCopy \<Rightarrow> localfs \<Rightarrow> string list \<Rightarrow> module list \<Rightarrow> error + module list" where
  "dirs_remove_loop self fs [] dirs_to_remove = Inr dirs_to_remove"
| "dirs_remove_loop self fs (dirname # rest) dirs_to_remove =
     (case get_local_path self dirname of
        Inl e \<Rightarrow> Inl e
      | Inr p \<Rightarrow>
          if \<not> isdir fs p
          then dirs_remove_loop self fs rest (dirs_to_remove @ [DirectoryAbsent dirname])
          else dirs_remove_loop self fs rest dirs_to_remove)"

text \<open>
  \<open>submodules\<close>: the pair of plans, each a list of two stages, or the first error
  raised on the way.
\<close>

definition submodules ::
  "DirectoryCopy \<Rightarrow> localfs \<Rightarrow> host \<Rightarrow>
   (error + (module list list \<times> module list list)) \<times> host" where
  "submodules self fs h =
     (case info_files_hash self h of
        (Inl e, h1) \<Rightarrow> (Inl e, h1)
      | (Inr existing_files, h1) \<Rightarrow>
          (case walk_loop self existing_files (walk fs (local_path self)) [] [] of
             Inl e \<Rightarrow> (Inl e, h1)
           | Inr (dirs_to_create, files_to_copy) \<Rightarrow>
               (case files_remove_loop self fs (map fst existing_files) [] of
                  Inl e \<Rightarrow> (Inl e, h1)
                | Inr files_to_remove \<Rightarrow>
                    (case info_dirs_present self h1 of
                       (Inl e, h2) \<Rightarrow> (Inl e, h2)
                     | (Inr existing_dirs, h2) \<Rightarrow>
                         (case dirs_remove_loop self fs existing_dirs [] of
                            Inl e \<Rightarrow> (Inl e, h2)
                          | Inr dirs_to_remove \<Rightarrow>
                              (Inr ([dirs_to_create, files_to_copy],
                                    [files_to_remove, dirs_to_remove]), h2))))))"

section \<open>Notions used to state the properties\<close>

text \<open>Whether \<open>check\<close> returns and evaluates to true, respectively to false.\<close>

definition check_true :: "Fact \<Rightarrow> engine \<Rightarrow> bool" where
  "check_true f w = (case fst (Fact_check f w) of Inl e \<Rightarrow> False | Inr c \<Rightarrow> FactCheck_bool c)"

definition check_false :: "Fact \<Rightarrow> engine \<Rightarrow> bool" where
  "check_false f w =
     (case fst (Fact_check f w) of Inl e \<Rightarrow> False | Inr c \<Rightarrow> \<not> FactCheck_bool c)"

text \<open>
  Two calls of \<open>apply\<close> in succession on the same host; an exception of the first
  call ends the run.
\<close>

definition apply_twice :: "Fact \<Rightarrow> engine \<Rightarrow> (error + Fact FactResult) \<times> engine" where
  "apply_twice f w =
     (case Fact_apply f w of
        (Inl e, w') \<Rightarrow> (Inl e, w')
      | (Inr r, w') \<Rightarrow> Fact_apply f w')"

text \<open>Whether an \<open>apply\<close> returned an outcome that evaluates to true ("changed").\<close>

definition changed :: "error + Fact FactResult \<Rightarrow> bool" where
  "changed r = (case r of Inl e \<Rightarrow> False | Inr x \<Rightarrow> FactResult_bool x)"

text \<open>Whether an \<open>apply\<close> returned an outcome that evaluates to false ("unchanged").\<close>

definition unchanged :: "error + Fact FactResult \<Rightarrow> bool" where
  "unchanged r = (case r of Inl e \<Rightarrow> False | Inr x \<Rightarrow> \<not> FactResult_bool x)"

text \<open>
  The contract of a unit on a class of host states. Its \<open>enforce\<close> establishes what
  its \<open>enquire\<close> inspects: whenever \<open>check\<close> evaluates to false and \<open>enforce\<close> then
  returns, \<open>check\<close> evaluates to true in the state that \<open>enforce\<close> leaves. Its \<open>check\<close>
  can be repeated: whenever it evaluates to true, it evaluates to true again in the
  state that it leaves.
\<close>

definition enforce_establishes :: "Fact \<Rightarrow> (host \<Rightarrow> bool) \<Rightarrow> bool" where
  "enforce_establishes f I =
     (\<forall>h. I h \<longrightarrow> check_false f (h, []) \<longrightarrow>
        (case enforce f (snd (enquire f h)) of
           (Inl e, h2) \<Rightarrow> True
         | (Inr r, h2) \<Rightarrow> check_true f (h2, [])))"

definition check_repeatable :: "Fact \<Rightarrow> (host \<Rightarrow> bool) \<Rightarrow> bool" where
  "check_repeatable f I =
     (\<forall>h. I h \<longrightarrow> check_true f (h, []) \<longrightarrow> check_true f (snd (enquire f h), []))"

text \<open>
  The path-mapping rule of the specification: the remote path of a local path is the
  local path with the local root stripped, under the remote root, and conversely.
\<close>

definition remote_of :: "DirectoryCopy \<Rightarrow> string \<Rightarrow> string" where
  "remote_of self path =
     join (remote_path self) (py_strip_chars ''/'' (drop (length (local_path self)) path))"

definition local_of :: "DirectoryCopy \<Rightarrow> string \<Rightarrow> string" where
  "local_of self path =
     join (local_path self) (py_strip_chars ''/'' (drop (length (remote_path self)) path))"

text \<open>
  The four stages as the specification describes them: a directory-present unit for
  every directory of the local walk, a file-copy unit for every file of the local walk
  (with the remote hash when the enumeration has one), a file-absent unit for every
  enumerated remote file with no corresponding local file, a directory-absent unit for
  every enumerated remote directory with no corresponding local directory.
\<close>

definition spec_dirs_to_create :: "DirectoryCopy \<Rightarrow> localfs \<Rightarrow> module list" where
  "spec_dirs_to_create self fs =
     concat (map (\<lambda>(root, dirs, files).
                    map (\<lambda>dirname. DirectoryPresent (join (remote_of self root) dirname)) dirs)
               (walk fs (local_path self)))"

definition spec_files_to_copy :: "DirectoryCopy \<Rightarrow> localfs \<Rightarrow> dict \<Rightarrow> module list" where
  "spec_files_to_copy self fs existing_files =
     concat (map (\<lambda>(root, dirs, files).
                    map (\<lambda>filename.
                           FileCopy (join (remote_of self root) filename) (join root filename)
                             (dict_get existing_files (join (remote_of self root) filename)))
                      files)
               (walk fs (local_path self)))"

definition spec_files_to_remove :: "DirectoryCopy \<Rightarrow> localfs \<Rightarrow> dict \<Rightarrow> module list" where
  "spec_files_to_remove self fs existing_files =
     map FileAbsent
       (filter (\<lambda>filepath. \<not> isfile fs (local_of self filepath)) (map fst existing_files))"

definition spec_dirs_to_remove :: "DirectoryCopy \<Rightarrow> localfs \<Rightarrow> string list \<Rightarrow> module list" where
  "spec_dirs_to_remove self fs existing_dirs =
     map DirectoryAbsent
       (filter (\<lambda>dirname. \<not> isdir fs (local_of self dirname)) existing_dirs)"

text \<open>Every root of the local walk carries the local root as its prefix.\<close>

definition walk_rooted :: "DirectoryCopy \<Rightarrow> localfs \<Rightarrow> bool" where
  "walk_rooted self fs =
     list_all (\<lambda>entry. startswith (fst entry) (local_path self))
       (walk fs (local_path self))"

text \<open>Every enumerated remote path carries the remote root as its prefix.\<close>

definition remote_rooted :: "DirectoryCopy \<Rightarrow> string list \<Rightarrow> bool" where
  "remote_rooted self paths = list_all (\<lambda>path. startswith path (remote_path self)) paths"

section \<open>Concrete hosts, file systems and units\<close>

text \<open>A host on which every operation succeeds with empty output, nothing done yet.\<close>

definition quiet_host :: host where
  "quiet_host = \<lparr>respond = (\<lambda>_ _. Inr []), log = []\<rparr>"

text \<open>A host on which every path is missing.\<close>

definition missing_host :: host where
  "missing_host = \<lparr>respond = (\<lambda>_ _. Inl NoSuchFileError), log = []\<rparr>"

text \<open>
  A host with one remote tree under \<open>/srv\<close>: the file \<open>/srv/b/g.txt\<close> and the
  directories \<open>/srv\<close>, \<open>/srv/b\<close> and \<open>/srv/c\<close>.
\<close>

definition srv_host :: host where
  "srv_host =
     \<lparr>respond = (\<lambda>_ req. case req of
          Run command _ _ \<Rightarrow>
            if command = ''find /srv -type f -exec sha256sum {} +''
            then Inr (''0a1b  /srv/b/g.txt'' @ [CHR 0x0A])
            else if command = ''find /srv -type d''
            then Inr (''/srv'' @ [CHR 0x0A] @ ''/srv/b'' @ [CHR 0x0A] @ ''/srv/c'' @ [CHR 0x0A])
            else Inr []
        | Put _ _ \<Rightarrow> Inr []),
      log = []\<rparr>"

text \<open>A local tree \<open>site\<close> with the directory \<open>site/a\<close> and the file \<open>site/a/f.txt\<close>.\<close>

definition site_fs :: localfs where
  "site_fs =
     \<lparr>walk = (\<lambda>top. if top = ''site''
                     then [(''site'', [''a''], []), (''site/a'', [], [''f.txt''])] else []),
      isfile = (\<lambda>p. p = ''site/a/f.txt''),
      isdir = (\<lambda>p. p = ''site'' \<or> p = ''site/'' \<or> p = ''site/a''),
      get_local_file_hash = (\<lambda>p. if p = ''site/a/f.txt'' then Inr (PyBytes ''8f43'')
                                  else Inl ProcessError)\<rparr>"

definition site_copy :: DirectoryCopy where
  "site_copy = \<lparr>remote_path = ''/srv'', local_path = ''site''\<rparr>"

text \<open>The same local tree copied onto \<open>/dev/null\<close>, where \<open>find\<close> prints nothing.\<close>

definition dev_null_copy :: DirectoryCopy where
  "dev_null_copy = \<lparr>remote_path = ''/dev/null'', local_path = ''site''\<rparr>"

text \<open>
  A host on which \<open>ls -d /tmp/flag\<close> prints the path once \<open>touch /tmp/flag\<close> has run,
  and the fact that asks for this file through \<open>FilePresent\<close>.
\<close>

definition flag_host :: host where
  "flag_host =
     \<lparr>respond = (\<lambda>past req.
          if req = Run ''ls -d /tmp/flag'' False False
               \<and> Run ''touch /tmp/flag'' True False \<in> set past
          then Inr ''/tmp/flag'' else Inr []),
      log = []\<rparr>"

definition flag_Fact :: Fact where
  "flag_Fact =
     \<lparr>enquire = (\<lambda>h. case FilePresent_check ''/tmp/flag'' h of
                       (Inl e, h') \<Rightarrow> (Inl e, h') | (Inr b, h') \<Rightarrow> (Inr (Leaf b), h')),
      enforce = (\<lambda>h. case FilePresent_apply ''/tmp/flag'' h of
                       (Inl e, h') \<Rightarrow> (Inl e, h') | (Inr b, h') \<Rightarrow> (Inr (Leaf b), h'))\<rparr>"

text \<open>The class of hosts that answer as \<open>flag_host\<close> does, whatever has been done to them.\<close>

definition flag_class :: "host \<Rightarrow> bool" where
  "flag_class h = (respond h = respond flag_host)"

text \<open>
  A host whose remote tree under \<open>/srv\<close> holds one file with a space in its name,
  \<open>/srv/my file.txt\<close>.
\<close>

definition spaced_host :: host where
  "spaced_host =
     \<lparr>respond = (\<lambda>_ req. case req of
          Run command _ _ \<Rightarrow>
            if command = ''find /srv -type f -exec sha256sum {} +''
            then Inr (''0a1b  /srv/my file.txt'' @ [CHR 0x0A])
            else if command = ''find /srv -type d''
            then Inr (''/srv'' @ [CHR 0x0A])
            else Inr []
        | Put _ _ \<Rightarrow> Inr []),
      log = []\<rparr>"

section \<open>Auxiliary facts\<close>

lemma all_true_leaves: "all_true xs = (\<forall>b \<in> set (leaves_list xs). b)"
  by (induction xs rule: all_true.induct) auto

lemma py_eq_structural:
  "py_eq a b = (a = b)" "py_list_eq xs ys = (xs = ys)"
  by (induction a b and xs ys rule: py_eq_py_list_eq.induct) auto

lemma issued_host_run: "issued h (snd (host_run c k n h)) = [Run c k n]"
  by (simp add: issued_def host_run_def)

lemma issued_self: "issued h h = []"
  by (simp add: issued_def)

lemma foldl_append_map: "foldl (\<lambda>acc x. acc @ [g x]) acc xs = acc @ map g xs"
  by (induction xs arbitrary: acc) simp_all

lemma get_remote_path_ok:
  "startswith root (local_path self) \<Longrightarrow> get_remote_path self root = Inr (remote_of self root)"
  by (simp add: get_remote_path_def remote_of_def)

lemma get_local_path_ok:
  "startswith p (remote_path self) \<Longrightarrow> get_local_path self p = Inr (local_of self p)"
  by (simp add: get_local_path_def local_of_def)

text \<open>
  The walk loop, started from any two accumulators, appends one unit for each directory
  name and each file name of each entry, in the order of the walk.
\<close>

lemma walk_loop_ok:
  "list_all (\<lambda>entry. startswith (fst entry) (local_path self)) ws \<Longrightarrow>
   walk_loop self ef ws dtc ftc =
     Inr (dtc @ concat (map (\<lambda>(root, dirs, files).
                    map (\<lambda>dirname. DirectoryPresent (join (remote_of self root) dirname)) dirs) ws),
          ftc @ concat (map (\<lambda>(root, dirs, files).
                    map (\<lambda>filename.
                           FileCopy (join (remote_of self root) filename) (join root filename)
                             (dict_get ef (join (remote_of self root) filename)))
                      files) ws))"
proof (induction ws arbitrary: dtc ftc)
  case Nil
  show ?case by simp
next
  case (Cons w ws)
  obtain root dirs files where w: "w = (root, dirs, files)"
    by (cases w) auto
  from Cons.prems w have r: "startswith root (local_path self)"
    and rest: "list_all (\<lambda>entry. startswith (fst entry) (local_path self)) ws"
    by simp_all
  show ?case
    using Cons.IH [OF rest] by (simp add: w get_remote_path_ok [OF r] foldl_append_map)
qed

lemma files_remove_loop_ok:
  "list_all (\<lambda>p. startswith p (remote_path self)) ps \<Longrightarrow>
   files_remove_loop self fs ps acc =
     Inr (acc @ map FileAbsent (filter (\<lambda>p. \<not> isfile fs (local_of self p)) ps))"
  by (induction ps arbitrary: acc) (simp_all add: get_local_path_ok)

lemma dirs_remove_loop_ok:
  "list_all (\<lambda>p. startswith p (remote_path self)) ps \<Longrightarrow>
   dirs_remove_loop self fs ps acc =
     Inr (acc @ map DirectoryAbsent (filter (\<lambda>p. \<not> isdir fs (local_of self p)) ps))"
  by (induction ps arbitrary: acc) (simp_all add: get_local_path_ok)

text \<open>What each \<open>check\<close> issues against the host.\<close>

lemma FilePresent_check_issued:
  "issued h (snd (FilePresent_check p h)) = [Run (''ls -d '' @ p) False False]"
  by (simp add: FilePresent_check_def issued_def host_run_def split: sum.splits)

lemma DirectoryPresent_check_issued:
  "issued h (snd (DirectoryPresent_check p h)) = [Run (''ls -d '' @ p) False False]"
  by (simp add: DirectoryPresent_check_def issued_def host_run_def split: sum.splits)

lemma FileAbsent_check_issued:
  "issued h (snd (FileAbsent_check p h)) = [Run (''ls -d '' @ p) False False]"
  by (simp add: FileAbsent_check_def FilePresent_check_def issued_def host_run_def
      split: sum.splits)

lemma DirectoryAbsent_check_issued:
  "issued h (snd (DirectoryAbsent_check p h)) = [Run (''ls -d '' @ p) False False]"
  by (simp add: DirectoryAbsent_check_def DirectoryPresent_check_def issued_def host_run_def
      split: sum.splits)

lemma FileHash_check_issued:
  "issued h (snd (FileHash_check p hash h)) = [Run (''sha256sum '' @ p) True True]"
  by (simp add: FileHash_check_def FileHash_get_hash_def issued_def host_run_def
      split: sum.splits error.splits)

lemma FileCopy_check_issued:
  "issued h (snd (FileCopy_check fs p l rh h)) =
     (case get_local_file_hash fs l of
        Inl e \<Rightarrow> []
      | Inr lh \<Rightarrow> if truthy rh then [] else [Run (''sha256sum '' @ p) True True])"
  by (simp add: FileCopy_check_def FileHash_check_issued issued_self split: sum.splits)

lemma module_check_ops:
  "list_all read_only (issued h (snd (module_check fs m h)))
   \<and> \<not> list_ex mutating (issued h (snd (module_check fs m h)))"
  by (cases m)
    (simp_all add: FilePresent_check_issued FileAbsent_check_issued FileHash_check_issued
      FileCopy_check_issued DirectoryPresent_check_issued DirectoryAbsent_check_issued
      command_name_def split: sum.splits)

text \<open>What the two \<open>enforce\<close> methods of the package facts issue.\<close>

lemma snd_run_then_return:
  "snd (case host_run c k n h of (Inl e, h') \<Rightarrow> (Inl e, h') | (Inr x, h') \<Rightarrow> (Inr v, h'))
     = snd (host_run c k n h)"
  by (simp add: host_run_def split: sum.splits)

lemma AptAbsent_enforce_issued:
  "issued h (snd (AptAbsent_enforce a h)) =
     [Run ((if sudo a then '''' else ''sudo '') @ ''apt-get remove ''
           @ (if purge a then ''--purge'' else '''') @ '' -y '' @ name a) True False]"
  unfolding AptAbsent_enforce_def Let_def
  by (cases "sudo a") (simp_all add: snd_run_then_return issued_host_run)

lemma AptPresent_enforce_issued:
  "issued h (snd (AptPresent_enforce b h)) =
     [Run ((if sudo b then ''sudo '' else '''') @ ''apt-get install -y '' @ name b) True False]"
  unfolding AptPresent_enforce_def
  by (cases "sudo b") (simp_all add: snd_run_then_return issued_host_run)

text \<open>The concrete runs used below.\<close>

lemma flag_first:
  "Fact_apply flag_Fact (flag_host, []) =
     (Inr \<lparr>FactResult.fact = flag_Fact, result = Leaf True\<rparr>,
      (flag_host\<lparr>log := [Run ''ls -d /tmp/flag'' False False,
                          Run ''touch /tmp/flag'' True False]\<rparr>,
       [CallEnquire, CallEnforce]))"
  by (simp add: Fact_apply_def Fact_check_def flag_Fact_def flag_host_def FilePresent_check_def
      FilePresent_apply_def host_run_def FactCheck_bool_def)

lemma flag_check_after: "check_true flag_Fact (snd (Fact_apply flag_Fact (flag_host, [])))"
  by (simp add: flag_first)
    (simp add: check_true_def Fact_check_def flag_Fact_def flag_host_def FilePresent_check_def
      host_run_def FactCheck_bool_def)

lemma srv_files:
  "info_files_hash site_copy srv_host =
     (Inr [(''/srv/b/g.txt'', ''0a1b'')],
      srv_host\<lparr>log := [Run ''find /srv -type f -exec sha256sum {} +'' True True]\<rparr>)"
  by (simp add: info_files_hash_def site_copy_def srv_host_def host_run_def py_strip_def
      py_split_def py_isspace_def)

lemma srv_dirs:
  "info_dirs_present site_copy
     (srv_host\<lparr>log := [Run ''find /srv -type f -exec sha256sum {} +'' True True]\<rparr>) =
     (Inr [''/srv'', ''/srv/b'', ''/srv/c''],
      srv_host\<lparr>log := [Run ''find /srv -type f -exec sha256sum {} +'' True True,
                        Run ''find /srv -type d'' True True]\<rparr>)"
  by (simp add: info_dirs_present_def site_copy_def srv_host_def host_run_def py_strip_def
      py_isspace_def)

lemma site_rooted: "walk_rooted site_copy site_fs"
  by (simp add: walk_rooted_def site_copy_def site_fs_def startswith_def)

lemma srv_rooted:
  "remote_rooted site_copy (map fst [(''/srv/b/g.txt'', ''0a1b'')])"
  "remote_rooted site_copy [''/srv'', ''/srv/b'', ''/srv/c'']"
  by (simp_all add: remote_rooted_def site_copy_def startswith_def)

lemma dev_null_files:
  "info_files_hash dev_null_copy quiet_host =
     (Inr [],
      quiet_host\<lparr>log := [Run ''find /dev/null -type f -exec sha256sum {} +'' True True]\<rparr>)"
  by (simp add: info_files_hash_def dev_null_copy_def quiet_host_def host_run_def py_strip_def)

lemma flag_establishes: "enforce_establishes flag_Fact flag_class"
  by (simp add: enforce_establishes_def flag_class_def flag_Fact_def flag_host_def
      check_true_def check_false_def Fact_check_def FilePresent_check_def FilePresent_apply_def
      host_run_def FactCheck_bool_def split: prod.splits sum.splits)

lemma flag_repeatable: "check_repeatable flag_Fact flag_class"
  by (auto simp: check_repeatable_def flag_class_def flag_Fact_def flag_host_def
      check_true_def Fact_check_def FilePresent_check_def
      host_run_def FactCheck_bool_def split: prod.splits sum.splits if_splits)

text \<open>
  A remote file name with a space in it: its line has three fields, and
  \<open>hash, path = line.split()\<close> raises \<open>ValueError\<close>.
\<close>

lemma spaced_files: "fst (info_files_hash site_copy spaced_host) = Inl ValueError"
  by (simp add: info_files_hash_def site_copy_def spaced_host_def host_run_def py_strip_def
      py_split_def py_isspace_def)

text \<open>The two branches of \<open>apply\<close>, and what the trace does not influence.\<close>

lemma check_true_cs: "check_true f (h, cs) = check_true f (h, [])"
  by (simp add: check_true_def Fact_check_def split: prod.splits sum.splits)

lemma check_false_cs: "check_false f (h, cs) = check_false f (h, [])"
  by (simp add: check_false_def Fact_check_def split: prod.splits sum.splits)

lemma apply_when_check_true:
  "check_true f (h, cs) \<Longrightarrow>
   Fact_apply f (h, cs) =
     (Inr \<lparr>FactResult.fact = f, result = Leaf False\<rparr>,
      (snd (enquire f h), cs @ [CallEnquire]))"
  by (cases "enquire f h"; cases "fst (enquire f h)")
    (auto simp: check_true_def Fact_check_def Fact_apply_def)

lemma apply_when_check_false:
  "check_false f (h, cs) \<Longrightarrow>
   Fact_apply f (h, cs) =
     (case enforce f (snd (enquire f h)) of
        (Inl e, h2) \<Rightarrow> (Inl e, (h2, cs @ [CallEnquire, CallEnforce]))
      | (Inr r, h2) \<Rightarrow>
          (Inr \<lparr>FactResult.fact = f, result = r\<rparr>, (h2, cs @ [CallEnquire, CallEnforce])))"
  by (cases "enquire f h"; cases "fst (enquire f h)")
    (auto simp: check_false_def Fact_check_def Fact_apply_def split: prod.splits sum.splits)

lemma apply_returns_cases:
  "fst (Fact_apply f (h, cs)) = Inr r \<Longrightarrow> check_true f (h, cs) \<or> check_false f (h, cs)"
  by (cases "enquire f h"; cases "fst (enquire f h)")
    (auto simp: check_true_def check_false_def Fact_check_def Fact_apply_def)

text \<open>
  Under the contract, an \<open>apply\<close> that returns leaves a state in which \<open>check\<close>
  evaluates to true, whichever branch it took.
\<close>

lemma contract_gives_present:
  assumes e: "enforce_establishes f I" and c: "check_repeatable f I" and i: "I h"
    and a: "fst (Fact_apply f (h, cs)) = Inr r"
  shows "check_true f (snd (Fact_apply f (h, cs)))"
proof -
  from apply_returns_cases [OF a] show ?thesis
  proof
    assume t: "check_true f (h, cs)"
    then have "check_true f (h, [])"
      by (simp add: check_true_cs [of f h cs])
    with c i have "check_true f (snd (enquire f h), [])"
      by (simp add: check_repeatable_def)
    then show ?thesis
      by (simp add: apply_when_check_true [OF t] check_true_cs [of f _ "cs @ [CallEnquire]"])
  next
    assume n: "check_false f (h, cs)"
    then have n0: "check_false f (h, [])"
      by (simp add: check_false_cs [of f h cs])
    obtain r2 h2 where en: "enforce f (snd (enquire f h)) = (r2, h2)"
      by (cases "enforce f (snd (enquire f h))") auto
    from a en obtain r' where r2: "r2 = Inr r'"
      by (cases r2) (auto simp: apply_when_check_false [OF n])
    note e [unfolded enforce_establishes_def, rule_format, OF i n0]
    with en r2 have "check_true f (h2, [])"
      by simp
    then show ?thesis
      by (simp add: apply_when_check_false [OF n] en r2
          check_true_cs [of f h2 "cs @ [CallEnquire, CallEnforce]"])
  qed
qed

lemma AptUpdated_never_unchanged:
  "\<not> unchanged (fst (Fact_apply (AptUpdated_Fact u) w))"
  by (cases w)
    (simp add: unchanged_def Fact_apply_def Fact_check_def AptUpdated_Fact_def
      AptUpdated_enquire_def AptUpdated_enforce_def FactCheck_bool_def FactResult_bool_def
      split: prod.splits sum.splits)

text \<open>
  When both remote enumerations return, every root of the local walk starts with the
  local root and every enumerated remote path starts with the remote root,
  \<open>submodules\<close> returns the two plans of two stages each: directory-present units
  before file-copy units, file-absent units before directory-absent units.
\<close>

lemma submodules_plans:
  assumes "info_files_hash self h = (Inr existing_files, h1)"
    and "info_dirs_present self h1 = (Inr existing_dirs, h2)"
    and "walk_rooted self fs"
    and "remote_rooted self (map fst existing_files)"
    and "remote_rooted self existing_dirs"
  shows "submodules self fs h =
           (Inr ([spec_dirs_to_create self fs, spec_files_to_copy self fs existing_files],
                 [spec_files_to_remove self fs existing_files,
                  spec_dirs_to_remove self fs existing_dirs]), h2)"
proof -
  have w: "walk_loop self existing_files (walk fs (local_path self)) [] [] =
             Inr (spec_dirs_to_create self fs, spec_files_to_copy self fs existing_files)"
    using assms(3)
    by (simp add: walk_rooted_def walk_loop_ok spec_dirs_to_create_def spec_files_to_copy_def)
  have f: "files_remove_loop self fs (map fst existing_files) [] =
             Inr (spec_files_to_remove self fs existing_files)"
    using assms(4) by (simp add: remote_rooted_def files_remove_loop_ok spec_files_to_remove_def)
  have d: "dirs_remove_loop self fs existing_dirs [] =
             Inr (spec_dirs_to_remove self fs existing_dirs)"
    using assms(5) by (simp add: remote_rooted_def dirs_remove_loop_ok spec_dirs_to_remove_def)
  show ?thesis
    by (simp add: submodules_def assms(1) assms(2) w f d)
qed

lemma submodules_plans_example:
  "walk_rooted site_copy site_fs
   \<and> fst (info_files_hash site_copy srv_host) = Inr [(''/srv/b/g.txt'', ''0a1b'')]
   \<and> remote_rooted site_copy [''/srv/b/g.txt'']
   \<and> remote_rooted site_copy [''/srv'', ''/srv/b'', ''/srv/c'']
   \<and> fst (submodules site_copy site_fs srv_host) =
       Inr ([[DirectoryPresent ''/srv/a''],
             [FileCopy ''/srv/a/f.txt'' ''site/a/f.txt'' PyNone]],
            [[FileAbsent ''/srv/b/g.txt''],
             [DirectoryAbsent ''/srv/b'', DirectoryAbsent ''/srv/c'']])"
proof -
  have plans:
    "spec_dirs_to_create site_copy site_fs = [DirectoryPresent ''/srv/a'']"
    "spec_files_to_copy site_copy site_fs [(''/srv/b/g.txt'', ''0a1b'')] =
       [FileCopy ''/srv/a/f.txt'' ''site/a/f.txt'' PyNone]"
    "spec_files_to_remove site_copy site_fs [(''/srv/b/g.txt'', ''0a1b'')] =
       [FileAbsent ''/srv/b/g.txt'']"
    "spec_dirs_to_remove site_copy site_fs [''/srv'', ''/srv/b'', ''/srv/c''] =
       [DirectoryAbsent ''/srv/b'', DirectoryAbsent ''/srv/c'']"
    by (simp_all add: spec_dirs_to_create_def spec_files_to_copy_def spec_files_to_remove_def
        spec_dirs_to_remove_def site_copy_def site_fs_def remote_of_def local_of_def
        py_strip_chars_def join_def startswith_def dict_get_def)
  show ?thesis
    using submodules_plans [OF srv_files srv_dirs site_rooted srv_rooted]
      site_rooted srv_rooted
    by (simp add: plans srv_files)
qed

section \<open>The claims\<close>

text \<open>
  C1. \<open>any_true\<close> is meant to be true exactly when some leaf of the structure is true,
  so \<open>any_true([F, [F, T]])\<close> should be true. The code returns false there: the branch
  for a nested list returns true when the nested list reduces to false and goes on
  when it reduces to true. The structure below has a true leaf, \<open>any_true\<close> is false on
  it, and so is the boolean value of a \<open>FactResult\<close> that wraps it.
\<close>

theorem any_true_misses_nested_true:
  "True \<in> set (leaves_list [Leaf False, Group [Leaf False, Leaf True]])
   \<and> any_true [Leaf False, Group [Leaf False, Leaf True]] = False
   \<and> FactResult_bool
        \<lparr>FactResult.fact = (), result = Group [Leaf False, Group [Leaf False, Leaf True]]\<rparr>
       = False"
  by (simp add: FactResult_bool_def)

text \<open>
  C2. \<open>submodules\<close> is meant to return the pair of two-stage plans for every local tree
  and every remote enumeration. It does not when \<open>find\<close> prints nothing for the remote
  path: \<open>info_files_hash\<close> skips the blank line and returns the empty mapping, but
  \<open>info_dirs_present\<close> returns the list with one empty string, which does not start
  with the remote root, and \<open>_get_local_path\<close> raises its assertion in place of the
  plans.
\<close>

theorem submodules_prefix_assertion:
  "fst (info_files_hash dev_null_copy quiet_host) = Inr []
   \<and> fst (info_dirs_present dev_null_copy (snd (info_files_hash dev_null_copy quiet_host)))
       = Inr [[]]
   \<and> fst (submodules dev_null_copy site_fs quiet_host) = Inl AssertionError"
proof -
  have "fst (info_dirs_present dev_null_copy (snd (info_files_hash dev_null_copy quiet_host)))
          = Inr [[]]"
    by (simp add: dev_null_files)
      (simp add: info_dirs_present_def dev_null_copy_def quiet_host_def host_run_def
        py_strip_def)
  moreover have "fst (submodules dev_null_copy site_fs quiet_host) = Inl AssertionError"
    by (simp add: submodules_def dev_null_files)
      (simp add: site_fs_def dev_null_copy_def get_remote_path_def startswith_def
        py_strip_chars_def join_def info_dirs_present_def host_run_def quiet_host_def
        py_strip_def get_local_path_def)
  ultimately show ?thesis
    by (simp add: dev_null_files)
qed

text \<open>
  C3. For every fact and every engine state, \<open>apply\<close> invokes \<open>enforce\<close> if and only if
  \<open>check\<close> returns an outcome that evaluates to false. When \<open>check\<close> evaluates to true,
  \<open>apply\<close> returns an outcome wrapping \<open>False\<close>, leaves the host as \<open>check\<close> left it,
  and \<open>enforce\<close> is not invoked.
\<close>

theorem apply_enforces_iff_check_false:
  "(CallEnforce \<in> set (invoked w (snd (Fact_apply f w)))) = check_false f w
   \<and> (check_true f w \<longrightarrow>
        Fact_apply f w =
          (Inr \<lparr>FactResult.fact = f, result = Leaf False\<rparr>, snd (Fact_check f w))
        \<and> CallEnforce \<notin> set (invoked w (snd (Fact_apply f w))))"
proof -
  obtain h cs where w: "w = (h, cs)"
    by (cases w) auto
  obtain r h' where e: "enquire f h = (r, h')"
    by (cases "enquire f h") auto
  show ?thesis
  proof (cases r)
    case (Inl err)
    then show ?thesis
      by (simp add: w e Fact_apply_def Fact_check_def check_false_def check_true_def
          invoked_def)
  next
    case (Inr payload)
    obtain r2 h2 where f: "enforce f h' = (r2, h2)"
      by (cases "enforce f h'") auto
    show ?thesis
      by (cases r2)
        (simp_all add: w e f Inr Fact_apply_def Fact_check_def check_false_def check_true_def
          invoked_def)
  qed
qed

theorem apply_enforces_iff_check_false_witness:
  "check_true flag_Fact (snd (Fact_apply flag_Fact (flag_host, [])))
   \<and> unchanged (fst (Fact_apply flag_Fact (snd (Fact_apply flag_Fact (flag_host, [])))))
   \<and> check_false flag_Fact (flag_host, [])
   \<and> CallEnforce \<in> set (invoked (flag_host, []) (snd (Fact_apply flag_Fact (flag_host, []))))"
  using apply_enforces_iff_check_false [of "snd (Fact_apply flag_Fact (flag_host, []))" flag_Fact]
    apply_enforces_iff_check_false [of "(flag_host, [])" flag_Fact] flag_check_after
  by (simp add: unchanged_def FactResult_bool_def) (simp add: flag_first invoked_def)

text \<open>
  C4. \<open>all_true\<close> is true exactly when every leaf of the structure is true, and so is the
  boolean value of a \<open>FactCheck\<close> whose payload is a boolean or a nested list;
  \<open>all_true([T, [T, T]])\<close> is true, \<open>all_true([T, [T, F]])\<close> is false and
  \<open>all_true([])\<close> is true.
\<close>

theorem all_true_and_reduction:
  "all_true xs = (\<forall>b \<in> set (leaves_list xs). b)
   \<and> FactCheck_bool c = (\<forall>b \<in> set (leaves (FactCheck.result c)). b)
   \<and> all_true [Leaf True, Group [Leaf True, Leaf True]]
   \<and> \<not> all_true [Leaf True, Group [Leaf True, Leaf False]]
   \<and> all_true []"
proof -
  have "FactCheck_bool c = (\<forall>b \<in> set (leaves (FactCheck.result c)). b)"
    by (cases "FactCheck.result c") (simp_all add: FactCheck_bool_def all_true_leaves)
  then show ?thesis
    by (simp add: all_true_leaves)
qed

theorem all_true_and_reduction_witness:
  "False \<in> set (leaves_list [Leaf True, Group [Leaf True, Leaf False]])
   \<and> \<not> all_true [Leaf True, Group [Leaf True, Leaf False]]
   \<and> True \<in> set (leaves (Group [Leaf True, Group [Leaf True]]))
   \<and> FactCheck_bool \<lparr>FactCheck.fact = (), result = Group [Leaf True, Group [Leaf True]]\<rparr>"
  using all_true_and_reduction
    [of "[Leaf True, Group [Leaf True, Leaf False]]"
        "\<lparr>FactCheck.fact = (), result = Group [Leaf True, Group [Leaf True]]\<rparr>"]
  by simp

text \<open>
  C5, as stated, fails: two calls of \<open>apply\<close> in succession do not always end with an
  unchanged outcome. \<open>AptUpdated.enquire\<close> returns \<open>False\<close> whatever the host, so each
  \<open>apply\<close> of an \<open>AptUpdated\<close> runs the update and returns an outcome that evaluates to
  true, the second one included.
\<close>

theorem apt_updated_second_apply_changed:
  "changed (fst (apply_twice (AptUpdated_Fact \<lparr>names = []\<rparr>) (quiet_host, [])))"
  by (simp add: changed_def apply_twice_def Fact_apply_def Fact_check_def AptUpdated_Fact_def
      AptUpdated_enquire_def AptUpdated_enforce_def host_run_def quiet_host_def
      FactCheck_bool_def FactResult_bool_def)

text \<open>
  C5, amended. Take a unit and a class of host states on which the unit keeps its
  contract: whenever its \<open>check\<close> evaluates to false and its \<open>enforce\<close> then returns,
  \<open>check\<close> evaluates to true in the state that \<open>enforce\<close> leaves; whenever \<open>check\<close>
  evaluates to true, it evaluates to true again in the state that it leaves. Then from
  every host state of the class from which the first \<open>apply\<close> returns, the first
  \<open>apply\<close> leaves a state in which \<open>check\<close> evaluates to true, and the second \<open>apply\<close>
  invokes no \<open>enforce\<close> and returns an outcome that evaluates to false (unchanged).
  For \<open>AptUpdated\<close>, whose \<open>enquire\<close> returns \<open>False\<close> unconditionally, the second
  \<open>apply\<close> returns an outcome that evaluates to false on no host.
\<close>

theorem contract_gives_idempotency:
  "(enforce_establishes f I \<and> check_repeatable f I \<and> I h
      \<and> fst (Fact_apply f (h, cs)) = Inr r
    \<longrightarrow> check_true f (snd (Fact_apply f (h, cs)))
        \<and> unchanged (fst (apply_twice f (h, cs)))
        \<and> CallEnforce \<notin>
            set (invoked (snd (Fact_apply f (h, cs))) (snd (apply_twice f (h, cs)))))
   \<and> \<not> unchanged (fst (apply_twice (AptUpdated_Fact u) w))"
proof -
  have second: "\<not> unchanged (fst (apply_twice (AptUpdated_Fact u) w))"
    using AptUpdated_never_unchanged [of u]
    by (cases "Fact_apply (AptUpdated_Fact u) w"; cases "fst (Fact_apply (AptUpdated_Fact u) w)")
      (auto simp: apply_twice_def unchanged_def)
  have first: "check_true f (snd (Fact_apply f (h, cs)))
        \<and> unchanged (fst (apply_twice f (h, cs)))
        \<and> CallEnforce \<notin>
            set (invoked (snd (Fact_apply f (h, cs))) (snd (apply_twice f (h, cs))))"
    if e: "enforce_establishes f I" and c: "check_repeatable f I" and i: "I h"
      and a: "fst (Fact_apply f (h, cs)) = Inr r"
  proof -
    obtain h1 cs1 where w1: "Fact_apply f (h, cs) = (Inr r, (h1, cs1))"
      using a by (cases "Fact_apply f (h, cs)") auto
    have p: "check_true f (h1, cs1)"
      using contract_gives_present [OF e c i a] by (simp add: w1)
    have tw: "apply_twice f (h, cs) = Fact_apply f (h1, cs1)"
      by (simp add: apply_twice_def w1)
    show ?thesis
      by (simp add: tw w1 p apply_when_check_true [OF p] unchanged_def FactResult_bool_def
          invoked_def)
  qed
  from first second show ?thesis
    by blast
qed

theorem contract_gives_idempotency_witness:
  "enforce_establishes flag_Fact flag_class
   \<and> check_repeatable flag_Fact flag_class
   \<and> flag_class flag_host
   \<and> fst (Fact_apply flag_Fact (flag_host, [])) =
       Inr \<lparr>FactResult.fact = flag_Fact, result = Leaf True\<rparr>
   \<and> check_true flag_Fact (snd (Fact_apply flag_Fact (flag_host, [])))
   \<and> unchanged (fst (apply_twice flag_Fact (flag_host, [])))"
proof -
  have a: "fst (Fact_apply flag_Fact (flag_host, [])) =
             Inr \<lparr>FactResult.fact = flag_Fact, result = Leaf True\<rparr>"
    by (simp add: flag_first)
  have i: "flag_class flag_host"
    by (simp add: flag_class_def)
  show ?thesis
    using contract_gives_idempotency
      [of flag_Fact flag_class flag_host "[]"
          "\<lparr>FactResult.fact = flag_Fact, result = Leaf True\<rparr>"]
      flag_establishes flag_repeatable a i
    by simp
qed

text \<open>
  C6. When the \<open>run\<close> of the file enumeration raises \<open>NoSuchFileError\<close>,
  \<open>info_files_hash\<close> returns the empty mapping; when the \<open>run\<close> of the directory
  enumeration raises \<open>NoSuchFileError\<close>, \<open>info_dirs_present\<close> returns the empty list.
  Neither propagates the error.
\<close>

theorem missing_path_gives_empty:
  "(fst (host_run (''find '' @ remote_path self @ '' -type f -exec sha256sum {} +'') True True h)
      = Inl NoSuchFileError
    \<longrightarrow> fst (info_files_hash self h) = Inr [])
   \<and> (fst (host_run (''find '' @ remote_path self @ '' -type d'') True True h)
         = Inl NoSuchFileError
       \<longrightarrow> fst (info_dirs_present self h) = Inr [])"
  by (simp add: info_files_hash_def info_dirs_present_def host_run_def)

theorem missing_path_gives_empty_witness:
  "fst (host_run (''find '' @ remote_path site_copy @ '' -type f -exec sha256sum {} +'')
          True True missing_host) = Inl NoSuchFileError
   \<and> fst (info_files_hash site_copy missing_host) = Inr []
   \<and> fst (host_run (''find '' @ remote_path site_copy @ '' -type d'') True True missing_host)
       = Inl NoSuchFileError
   \<and> fst (info_dirs_present site_copy missing_host) = Inr []"
  using missing_path_gives_empty [of site_copy missing_host]
  by (simp add: host_run_def missing_host_def)

text \<open>
  C7. \<open>apply\<close> of a \<open>FileHash\<close> unit is meant to raise an unsupported-operation error.
  On every host it fails and issues nothing, but the exception it raises is
  \<open>TypeError\<close>, not \<open>NotImplementedError\<close>: the statement is \<open>raise NotImplemented\<close>.
\<close>

theorem FileHash_apply_raises_TypeError:
  "module_apply (FileHash p hash) h = (Inl TypeError, h)
   \<and> fst (module_apply (FileHash p hash) h) \<noteq> Inl NotImplementedError
   \<and> issued h (snd (module_apply (FileHash p hash) h)) = []"
  by (simp add: FileHash_apply_def issued_def)

text \<open>
  C8. Comparing a \<open>FactCheck\<close> or a \<open>FactResult\<close> with a boolean or a nested list
  compares the stored payload, not its boolean value: the comparison holds exactly when
  the payload is that value. An outcome wrapping \<open>[True]\<close> equals \<open>[True]\<close> and does not
  equal \<open>True\<close>, although both payloads reduce to true.
\<close>

theorem outcome_eq_compares_payload:
  "FactCheck_eq c v = (FactCheck.result c = v)
   \<and> FactResult_eq r v = (FactResult.result r = v)
   \<and> FactCheck_eq \<lparr>FactCheck.fact = f, result = Group [Leaf True]\<rparr> (Group [Leaf True])
   \<and> \<not> FactCheck_eq \<lparr>FactCheck.fact = f, result = Group [Leaf True]\<rparr> (Leaf True)
   \<and> FactCheck_bool \<lparr>FactCheck.fact = f, result = Group [Leaf True]\<rparr>
   \<and> FactCheck_bool \<lparr>FactCheck.fact = f, result = Leaf True\<rparr>"
  by (simp add: FactCheck_eq_def FactResult_eq_def py_eq_structural FactCheck_bool_def)

text \<open>
  C9. \<open>check\<close> issues no mutating operation: for every unit of the file and directory
  classes, every operation that \<open>check\<close> issues is a \<open>run\<close> of \<open>ls\<close>, \<open>sha256sum\<close> or
  \<open>find\<close>, and none is a \<open>put\<close> or a \<open>run\<close> of \<open>touch\<close>, \<open>rm\<close>, \<open>mkdir\<close> or \<open>rmdir\<close>.
  For a \<open>FileCopy\<close> unit with a known, non-empty remote hash, \<open>check\<close> issues nothing
  and returns whether the hash of the local file equals that remote hash.
\<close>

theorem check_issues_no_mutation:
  "list_all read_only (issued h (snd (module_check fs m h)))
   \<and> \<not> list_ex mutating (issued h (snd (module_check fs m h)))
   \<and> (truthy remote_hash \<longrightarrow>
        snd (FileCopy_check fs p l remote_hash h) = h
        \<and> (\<forall>local_hash. get_local_file_hash fs l = Inr local_hash \<longrightarrow>
              fst (FileCopy_check fs p l remote_hash h) = Inr (local_hash = remote_hash)))"
  using module_check_ops [of h fs m]
  by (simp add: FileCopy_check_def split: sum.splits)

theorem check_issues_no_mutation_witness:
  "truthy (PyBytes ''8f43'')
   \<and> get_local_file_hash site_fs ''site/a/f.txt'' = Inr (PyBytes ''8f43'')
   \<and> FileCopy_check site_fs ''/srv/a/f.txt'' ''site/a/f.txt'' (PyBytes ''8f43'') quiet_host
       = (Inr True, quiet_host)
   \<and> issued quiet_host (snd (module_check site_fs (FilePresent ''/srv/a'') quiet_host))
       = [Run ''ls -d /srv/a'' False False]"
  using check_issues_no_mutation
    [of quiet_host site_fs "FilePresent ''/srv/a''" "PyBytes ''8f43''" "''/srv/a/f.txt''"
        "''site/a/f.txt''"]
  by (simp add: site_fs_def FilePresent_check_issued prod_eq_iff)

text \<open>
  C10. \<open>AptAbsent.enforce\<close> issues one \<open>apt-get remove\<close> command, with the \<open>sudo\<close>
  prefix exactly when the unit's \<open>sudo\<close> flag is false; \<open>AptPresent.enforce\<close> issues one
  \<open>apt-get install\<close> command, with the \<open>sudo\<close> prefix exactly when the flag is true.
\<close>

theorem AptAbsent_sudo_inverted:
  "issued h (snd (AptAbsent_enforce a h)) =
     [Run ((if sudo a then '''' else ''sudo '') @ ''apt-get remove ''
           @ (if purge a then ''--purge'' else '''') @ '' -y '' @ name a) True False]
   \<and> list_all sudo_prefixed (issued h (snd (AptAbsent_enforce a h))) = (\<not> sudo a)
   \<and> issued h (snd (AptPresent_enforce b h)) =
     [Run ((if sudo b then ''sudo '' else '''') @ ''apt-get install -y '' @ name b) True False]
   \<and> list_all sudo_prefixed (issued h (snd (AptPresent_enforce b h))) = sudo b"
  by (simp add: AptAbsent_enforce_issued AptPresent_enforce_issued startswith_def)

end
